theory Spec2Isabelle
  imports Main
begin

section \<open>JavaScript object literals used as lookup tables\<close>

text \<open>
  \<^verbatim>\<open>statusConfig\<close> (StatusBadge) and \<^verbatim>\<open>outputTypeLabels\<close> (OutputCard) are plain
  object literals indexed with an arbitrary string: \<^verbatim>\<open>table[key] || fallback\<close>.
  A property read on an object literal first looks at the object's own properties and
  then walks the prototype chain, whose only link for a literal is
  \<^verbatim>\<open>Object.prototype\<close>. The read therefore has three outcomes: an own entry of the
  table, a member inherited from \<^verbatim>\<open>Object.prototype\<close> (a function, or the prototype
  object itself for \<^verbatim>\<open>__proto__\<close>), or \<^verbatim>\<open>undefined\<close>.
\<close>

datatype 'a js_value = Own 'a | Inherited string | Undefined

datatype js_error = TypeError

text \<open>The property names every object literal inherits from \<^verbatim>\<open>Object.prototype\<close>.\<close>

definition object_prototype_keys :: "string list" where
  "object_prototype_keys =
     [''constructor'', ''hasOwnProperty'', ''isPrototypeOf'', ''propertyIsEnumerable'',
      ''toLocaleString'', ''toString'', ''valueOf'', ''__proto__'',
      ''__defineGetter__'', ''__defineSetter__'', ''__lookupGetter__'', ''__lookupSetter__'']"

text \<open>\<^verbatim>\<open>table[key]\<close> for a table written as an object literal.\<close>

definition js_get :: "(string \<times> 'a) list \<Rightarrow> string \<Rightarrow> 'a js_value" where
  "js_get table k =
     (case map_of table k of
        Some v \<Rightarrow> Own v
      | None \<Rightarrow> if k \<in> set object_prototype_keys then Inherited k else Undefined)"

text \<open>Objects and functions are truthy, \<^verbatim>\<open>undefined\<close> is falsy.\<close>

fun truthy :: "'a js_value \<Rightarrow> bool" where
  "truthy (Own v) = True"
| "truthy (Inherited k) = True"
| "truthy Undefined = False"

text \<open>\<^verbatim>\<open>v || fallback\<close> where the fallback is a fresh object literal.\<close>

definition js_or :: "'a js_value \<Rightarrow> 'a \<Rightarrow> 'a js_value" where
  "js_or v fallback = (if truthy v then v else Own fallback)"

text \<open>
  \<^verbatim>\<open>config.field\<close>: a field of an own table entry is its value; the members inherited
  from \<^verbatim>\<open>Object.prototype\<close> carry none of the fields the two components read
  (\<^verbatim>\<open>label\<close>, \<^verbatim>\<open>color\<close>, \<^verbatim>\<open>title\<close>, \<^verbatim>\<open>icon\<close>), so the read gives
  \<^verbatim>\<open>undefined\<close> (\<open>None\<close>); a read on \<^verbatim>\<open>undefined\<close> throws a TypeError.
\<close>

fun js_field :: "'a js_value \<Rightarrow> ('a \<Rightarrow> string) \<Rightarrow> js_error + string option" where
  "js_field (Own v) f = Inr (Some (f v))"
| "js_field (Inherited k) f = Inr None"
| "js_field Undefined f = Inl TypeError"

text \<open>A value interpolated into a template literal: \<^verbatim>\<open>undefined\<close> prints as its name.\<close>

fun interpolate :: "string option \<Rightarrow> string" where
  "interpolate (Some v) = v"
| "interpolate None = ''undefined''"

section \<open>StatusBadge\<close>

record badge_config =
  label :: string
  color :: string

definition statusConfig :: "(string \<times> badge_config) list" where
  "statusConfig =
     [(''CREATED'', \<lparr>label = ''Created'', color = ''bg-gray-600''\<rparr>),
      (''UPLOADED'', \<lparr>label = ''Uploaded'', color = ''bg-blue-600''\<rparr>),
      (''TRANSCRIBING'', \<lparr>label = ''Transcribing...'', color = ''bg-yellow-600''\<rparr>),
      (''EXTRACTING'', \<lparr>label = ''Analyzing...'', color = ''bg-yellow-600''\<rparr>),
      (''GENERATING'', \<lparr>label = ''Generating...'', color = ''bg-yellow-600''\<rparr>),
      (''COMPLETED'', \<lparr>label = ''Completed'', color = ''bg-emerald-600''\<rparr>),
      (''FAILED'', \<lparr>label = ''Failed'', color = ''bg-red-600''\<rparr>)]"

text \<open>
  The rendered \<^verbatim>\<open>span\<close>: its class attribute and its child. A child that is
  \<^verbatim>\<open>undefined\<close> (\<open>None\<close>) renders no text.
\<close>

record span =
  className :: string
  children :: "string option"

definition badge_classes :: string where
  "badge_classes =
     ''inline-flex items-center px-2.5 py-0.5 rounded-full text-xs font-medium text-white ''"

definition StatusBadge :: "string \<Rightarrow> js_error + span" where
  "StatusBadge status =
     (let config = js_or (js_get statusConfig status)
                     \<lparr>label = status, color = ''bg-gray-600''\<rparr>
      in case js_field config color of
           Inl e \<Rightarrow> Inl e
         | Inr c \<Rightarrow>
             (case js_field config label of
                Inl e \<Rightarrow> Inl e
              | Inr l \<Rightarrow> Inr \<lparr>className = badge_classes @ interpolate c, children = l\<rparr>))"

section \<open>OutputCard\<close>

record output_config =
  title :: string
  icon :: string

text \<open>The icons are emoji; they are written as the UTF-8 bytes of the source file.\<close>

definition outputTypeLabels :: "(string \<times> output_config) list" where
  "outputTypeLabels =
     [(''STUDENT_RECAP'',
        \<lparr>title = ''Student Recap'', icon = [CHR 0xF0, CHR 0x9F, CHR 0x93, CHR 0x9D]\<rparr>),
      (''PRACTICE_PLAN'',
        \<lparr>title = ''Practice Plan'', icon = [CHR 0xF0, CHR 0x9F, CHR 0x93, CHR 0x85]\<rparr>),
      (''PARENT_EMAIL'',
        \<lparr>title = ''Parent Email'',
         icon = [CHR 0xE2, CHR 0x9C, CHR 0x89, CHR 0xEF, CHR 0xB8, CHR 0x8F]\<rparr>)]"

definition default_icon :: string where
  "default_icon = [CHR 0xF0, CHR 0x9F, CHR 0x93, CHR 0x84]"

record Output =
  output_id :: string
  output_type :: string
  content :: string
  is_edited :: bool
  is_shared :: bool
  output_created_at :: string

text \<open>
  The part of the card that depends on \<^verbatim>\<open>config\<close>: the icon \<^verbatim>\<open>span\<close> and the title
  heading of the header. A child that is \<^verbatim>\<open>undefined\<close> (\<open>None\<close>) renders no text.
\<close>

record card_header =
  header_icon :: "string option"
  header_title :: "string option"

definition OutputCard :: "Output \<Rightarrow> js_error + card_header" where
  "OutputCard output =
     (let config = js_or (js_get outputTypeLabels (output_type output))
                     \<lparr>title = output_type output, icon = default_icon\<rparr>
      in case js_field config icon of
           Inl e \<Rightarrow> Inl e
         | Inr i \<Rightarrow>
             (case js_field config title of
                Inl e \<Rightarrow> Inl e
              | Inr t \<Rightarrow> Inr \<lparr>header_icon = i, header_title = t\<rparr>))"

section \<open>LessonPage: the lesson status tracker\<close>

subsection \<open>Data\<close>

record Lesson =
  lesson_id :: string
  student_id :: string
  student_name :: string
  lesson_date :: string
  status :: string
  duration_seconds :: "int option"
  error_message :: "string option"
  created_at :: string
  updated_at :: string

record LessonDetail = Lesson +
  transcript :: "string option"
  outputs :: "Output list"

text \<open>The outcome of an awaited request: the promise resolves with data or rejects.\<close>

datatype 'a response = Resolved 'a | Rejected string

text \<open>
  The calls made to the service: \<^verbatim>\<open>lessonsApi.get\<close> and \<^verbatim>\<open>lessonsApi.process\<close> by the
  page, \<^verbatim>\<open>outputsApi.update\<close> (output id and new content) and \<^verbatim>\<open>outputsApi.revert\<close> by
  an output card.
\<close>

datatype api_call =
    GetLesson string
  | ProcessLesson string
  | UpdateOutput string string
  | RevertOutput string

text \<open>
  An interval timer of the browser: the handle \<^verbatim>\<open>setInterval\<close> returned, the period
  in milliseconds it was registered with, and the \<^verbatim>\<open>lessonId\<close> its callback closed over.
\<close>

record interval =
  handle :: nat
  delay :: nat
  target :: string

text \<open>
  An \<^verbatim>\<open>async\<close> function runs up to its \<^verbatim>\<open>await\<close> and resumes when the request
  settles. A suspended function is recorded with the \<^verbatim>\<open>lessonId\<close> it closed over:
  \<^verbatim>\<open>loadLesson\<close> called by the effect, a tick callback, and \<^verbatim>\<open>handleRetry\<close> at its
  first and at its second \<^verbatim>\<open>await\<close>. A suspended \<^verbatim>\<open>handleSave\<close> or
  \<^verbatim>\<open>handleRevert\<close> of an output card holds the \<^verbatim>\<open>onUpdate\<close> it was rendered with,
  that is the \<^verbatim>\<open>handleOutputUpdate\<close> of one render of the page; that closure is
  recorded by the one variable of the page's state it reads, \<^verbatim>\<open>lesson\<close>.
\<close>

datatype pending =
    LoadFetch string
  | TickFetch string
  | RetryProcess string
  | RetryLoad string
  | SaveAwait "LessonDetail option"
  | RevertAwait "LessonDetail option"

text \<open>
  The component's state (\<^verbatim>\<open>useState\<close>, \<^verbatim>\<open>useRef\<close>), the browser's table of active
  interval timers with its next free handle, the suspended functions, and a trace of
  the effects on the outside: requests sent, console messages and navigations.
\<close>

record page =
  lesson :: "LessonDetail option"
  isLoading :: bool
  isRetrying :: bool
  pollRef :: "nat option"
  intervals :: "interval list"
  nextHandle :: nat
  inflight :: "pending list"
  requests :: "api_call list"
  console :: "string list"
  navigated :: "string list"

text \<open>The state at the first render; the browser's handles are positive integers.\<close>

definition initial_page :: page where
  "initial_page =
     \<lparr>lesson = None, isLoading = True, isRetrying = False, pollRef = None,
      intervals = [], nextHandle = 1, inflight = [], requests = [],
      console = [], navigated = []\<rparr>"

definition PROCESSING_STATUSES :: "string list" where
  "PROCESSING_STATUSES = [''UPLOADED'', ''TRANSCRIBING'', ''EXTRACTING'', ''GENERATING'']"

text \<open>The period that \<^verbatim>\<open>startPolling\<close> passes to \<^verbatim>\<open>setInterval\<close>, the literal 2000.\<close>

definition POLL_INTERVAL :: nat where
  "POLL_INTERVAL = 2000"

subsection \<open>The browser's timers\<close>

definition clearInterval :: "nat \<Rightarrow> page \<Rightarrow> page" where
  "clearInterval h s = s\<lparr>intervals := filter (\<lambda>t. handle t \<noteq> h) (intervals s)\<rparr>"

text \<open>\<^verbatim>\<open>window.setInterval(callback, ms)\<close>: registers a timer and returns its handle.\<close>

definition setInterval :: "string \<Rightarrow> nat \<Rightarrow> page \<Rightarrow> nat \<times> page" where
  "setInterval lid ms s =
     (nextHandle s,
      s\<lparr>intervals := intervals s @ [\<lparr>handle = nextHandle s, delay = ms, target = lid\<rparr>],
        nextHandle := nextHandle s + 1\<rparr>)"

text \<open>
  \<^verbatim>\<open>if (pollRef.current) clearInterval(pollRef.current)\<close>: the test is JavaScript
  truthiness, so \<^verbatim>\<open>null\<close> and the number 0 both skip the call.
\<close>

definition clear_current :: "page \<Rightarrow> page" where
  "clear_current s =
     (case pollRef s of
        None \<Rightarrow> s
      | Some h \<Rightarrow> if h \<noteq> 0 then clearInterval h s else s)"

subsection \<open>The component's functions\<close>

definition startPolling :: "string \<Rightarrow> page \<Rightarrow> page" where
  "startPolling lid s =
     (let (h, s') = setInterval lid POLL_INTERVAL (clear_current s)
      in s'\<lparr>pollRef := Some h\<rparr>)"

text \<open>
  The scheduling step of \<^verbatim>\<open>loadLesson\<close> after \<^verbatim>\<open>setLesson(data)\<close>, which the
  specification calls evaluateAndSchedule:
  \<^verbatim>\<open>if (PROCESSING_STATUSES.includes(data.status)) startPolling()\<close>, with no other branch.
\<close>

definition evaluateAndSchedule :: "string \<Rightarrow> LessonDetail \<Rightarrow> page \<Rightarrow> page" where
  "evaluateAndSchedule lid data s =
     (if status data \<in> set PROCESSING_STATUSES then startPolling lid s else s)"

text \<open>Sending a request and suspending at the \<^verbatim>\<open>await\<close>.\<close>

definition await :: "api_call \<Rightarrow> pending \<Rightarrow> page \<Rightarrow> page" where
  "await c p s = s\<lparr>requests := requests s @ [c], inflight := inflight s @ [p]\<rparr>"

text \<open>\<^verbatim>\<open>loadLesson\<close> up to \<^verbatim>\<open>await lessonsApi.get(lessonId!)\<close>.\<close>

definition loadLesson_begin :: "string \<Rightarrow> page \<Rightarrow> page" where
  "loadLesson_begin lid s = await (GetLesson lid) (LoadFetch lid) s"

text \<open>\<^verbatim>\<open>loadLesson\<close> from the settled request on: the try body or the catch, then the finally.\<close>

definition loadLesson_resume :: "string \<Rightarrow> LessonDetail response \<Rightarrow> page \<Rightarrow> page" where
  "loadLesson_resume lid r s =
     (case r of
        Resolved data \<Rightarrow> (evaluateAndSchedule lid data (s\<lparr>lesson := Some data\<rparr>))\<lparr>isLoading := False\<rparr>
      | Rejected err \<Rightarrow>
          s\<lparr>console := console s @ [''Failed to load lesson''],
            navigated := navigated s @ [''/''],
            isLoading := False\<rparr>)"

text \<open>The interval callback up to its \<^verbatim>\<open>await\<close>, and from the settled request on.\<close>

definition tick_begin :: "string \<Rightarrow> page \<Rightarrow> page" where
  "tick_begin lid s = await (GetLesson lid) (TickFetch lid) s"

definition tick_resume :: "LessonDetail response \<Rightarrow> page \<Rightarrow> page" where
  "tick_resume r s =
     (case r of
        Resolved data \<Rightarrow>
          (let s1 = s\<lparr>lesson := Some data\<rparr>
           in if status data \<notin> set PROCESSING_STATUSES
              then (case pollRef s1 of
                      None \<Rightarrow> s1
                    | Some h \<Rightarrow> if h \<noteq> 0 then (clearInterval h s1)\<lparr>pollRef := None\<rparr> else s1)
              else s1)
      | Rejected err \<Rightarrow> s\<lparr>console := console s @ [''Polling error'']\<rparr>)"

text \<open>
  \<^verbatim>\<open>handleRetry\<close> in its three segments. \<^verbatim>\<open>loadLesson\<close> catches its own errors, so
  the \<^verbatim>\<open>await loadLesson()\<close> never rejects and \<^verbatim>\<open>startPolling()\<close> always follows it.
\<close>

definition handleRetry_begin :: "string \<Rightarrow> page \<Rightarrow> page" where
  "handleRetry_begin lid s = await (ProcessLesson lid) (RetryProcess lid) (s\<lparr>isRetrying := True\<rparr>)"

definition handleRetry_processed :: "string \<Rightarrow> unit response \<Rightarrow> page \<Rightarrow> page" where
  "handleRetry_processed lid r s =
     (case r of
        Resolved u \<Rightarrow> await (GetLesson lid) (RetryLoad lid) s
      | Rejected err \<Rightarrow> s\<lparr>console := console s @ [''Retry failed''], isRetrying := False\<rparr>)"

definition handleRetry_loaded :: "string \<Rightarrow> LessonDetail response \<Rightarrow> page \<Rightarrow> page" where
  "handleRetry_loaded lid r s = (startPolling lid (loadLesson_resume lid r s))\<lparr>isRetrying := False\<rparr>"

text \<open>
  \<^verbatim>\<open>handleOutputUpdate\<close> is created anew by every render and closes over the
  \<^verbatim>\<open>lesson\<close> of that render: \<^verbatim>\<open>setLesson({ ...lesson, outputs: ... })\<close> builds the
  new state from the captured value, not from the state held when it is called. The
  first argument is that captured value.
\<close>

definition handleOutputUpdate :: "LessonDetail option \<Rightarrow> Output \<Rightarrow> page \<Rightarrow> page" where
  "handleOutputUpdate captured updated s =
     (case captured of
        None \<Rightarrow> s
      | Some l \<Rightarrow>
          s\<lparr>lesson :=
              Some (l\<lparr>outputs := map (\<lambda>out. if output_id out = output_id updated then updated else out)
                                     (outputs l)\<rparr>)\<rparr>)"

text \<open>
  What \<^verbatim>\<open>handleSave\<close> and \<^verbatim>\<open>handleRevert\<close> of an output card do to the page: they
  send their request with the \<^verbatim>\<open>onUpdate\<close> of the current render in hand, and when
  the request resolves they call it with the returned output; when it rejects they log.
  The card's own state (editing, saving, copied) is not part of the page.
\<close>

definition handleSave_begin :: "string \<Rightarrow> string \<Rightarrow> page \<Rightarrow> page" where
  "handleSave_begin oid editContent s =
     await (UpdateOutput oid editContent) (SaveAwait (lesson s)) s"

definition handleSave_resume :: "LessonDetail option \<Rightarrow> Output response \<Rightarrow> page \<Rightarrow> page" where
  "handleSave_resume captured r s =
     (case r of
        Resolved data \<Rightarrow> handleOutputUpdate captured data s
      | Rejected err \<Rightarrow> s\<lparr>console := console s @ [''Failed to save'']\<rparr>)"

definition handleRevert_begin :: "string \<Rightarrow> page \<Rightarrow> page" where
  "handleRevert_begin oid s = await (RevertOutput oid) (RevertAwait (lesson s)) s"

definition handleRevert_resume :: "LessonDetail option \<Rightarrow> Output response \<Rightarrow> page \<Rightarrow> page" where
  "handleRevert_resume captured r s =
     (case r of
        Resolved data \<Rightarrow> handleOutputUpdate captured data s
      | Rejected err \<Rightarrow> s\<lparr>console := console s @ [''Failed to revert'']\<rparr>)"

text \<open>
  The effect on \<^verbatim>\<open>lessonId\<close>: its body, \<^verbatim>\<open>if (lessonId) loadLesson()\<close>, and its
  cleanup, which React runs before the effect runs again (the route parameter changed,
  the component stays mounted) and when the page is torn down. The cleanup clears the
  timer and leaves \<^verbatim>\<open>pollRef.current\<close> as it is. The model follows a component that
  stays mounted: what React does with a state update after the unmount is not part of it.
\<close>

definition effect_body :: "string option \<Rightarrow> page \<Rightarrow> page" where
  "effect_body lessonId s =
     (case lessonId of
        None \<Rightarrow> s
      | Some lid \<Rightarrow> if lid \<noteq> [] then loadLesson_begin lid s else s)"

definition effect_cleanup :: "page \<Rightarrow> page" where
  "effect_cleanup s = clear_current s"

subsection \<open>Runs of the page\<close>

text \<open>
  What can happen to a page, one event at a time on the single event loop: the effect
  and its cleanup, a timer firing, the Retry button, the Save and Revert buttons of an
  output card, and the settling of a request that a suspended function waits for.
\<close>

datatype event =
    Effect "string option"
  | Cleanup
  | LoadResponse string "LessonDetail response"
  | TimerFires nat
  | TickResponse string "LessonDetail response"
  | RetryClick string
  | ProcessResponse string "unit response"
  | RetryLoadResponse string "LessonDetail response"
  | SaveClick string string
  | SaveResponse "LessonDetail option" "Output response"
  | RevertClick string
  | RevertResponse "LessonDetail option" "Output response"

definition settle :: "pending \<Rightarrow> page \<Rightarrow> page" where
  "settle p s = s\<lparr>inflight := remove1 p (inflight s)\<rparr>"

text \<open>The Retry button is rendered once loading is over and the held status is FAILED.\<close>

definition retry_offered :: "page \<Rightarrow> bool" where
  "retry_offered s =
     (\<not> isLoading s \<and> (case lesson s of None \<Rightarrow> False | Some l \<Rightarrow> status l = ''FAILED''))"

text \<open>
  The card of an output is rendered once loading is over, the held status is COMPLETED
  and the output is among the held lesson's outputs.
\<close>

definition card_shown :: "string \<Rightarrow> page \<Rightarrow> bool" where
  "card_shown oid s =
     (\<not> isLoading s
      \<and> (case lesson s of
           None \<Rightarrow> False
         | Some l \<Rightarrow> status l = ''COMPLETED'' \<and> oid \<in> output_id ` set (outputs l)))"

text \<open>One event; \<open>None\<close> when it cannot happen in the state.\<close>

fun step :: "event \<Rightarrow> page \<Rightarrow> page option" where
  "step (Effect lessonId) s = Some (effect_body lessonId s)"
| "step Cleanup s = Some (effect_cleanup s)"
| "step (LoadResponse lid r) s =
     (if LoadFetch lid \<in> set (inflight s)
      then Some (loadLesson_resume lid r (settle (LoadFetch lid) s)) else None)"
| "step (TimerFires h) s =
     (case find (\<lambda>t. handle t = h) (intervals s) of
        None \<Rightarrow> None
      | Some t \<Rightarrow> Some (tick_begin (target t) s))"
| "step (TickResponse lid r) s =
     (if TickFetch lid \<in> set (inflight s)
      then Some (tick_resume r (settle (TickFetch lid) s)) else None)"
| "step (RetryClick lid) s =
     (if retry_offered s then Some (handleRetry_begin lid s) else None)"
| "step (ProcessResponse lid r) s =
     (if RetryProcess lid \<in> set (inflight s)
      then Some (handleRetry_processed lid r (settle (RetryProcess lid) s)) else None)"
| "step (RetryLoadResponse lid r) s =
     (if RetryLoad lid \<in> set (inflight s)
      then Some (handleRetry_loaded lid r (settle (RetryLoad lid) s)) else None)"
| "step (SaveClick oid editContent) s =
     (if card_shown oid s then Some (handleSave_begin oid editContent s) else None)"
| "step (SaveResponse captured r) s =
     (if SaveAwait captured \<in> set (inflight s)
      then Some (handleSave_resume captured r (settle (SaveAwait captured) s)) else None)"
| "step (RevertClick oid) s =
     (if card_shown oid s then Some (handleRevert_begin oid s) else None)"
| "step (RevertResponse captured r) s =
     (if RevertAwait captured \<in> set (inflight s)
      then Some (handleRevert_resume captured r (settle (RevertAwait captured) s)) else None)"

fun run :: "event list \<Rightarrow> page \<Rightarrow> page option" where
  "run [] s = Some s"
| "run (e # es) s = (case step e s of None \<Rightarrow> None | Some s' \<Rightarrow> run es s')"

text \<open>
  The invariant of the timers: handles are positive and below the next free one, and
  the only timer that can be active is the one \<^verbatim>\<open>pollRef.current\<close> names, registered
  with the poll interval.
\<close>

definition timer_inv :: "page \<Rightarrow> bool" where
  "timer_inv s =
     (0 < nextHandle s
      \<and> (\<forall>h \<in> set_option (pollRef s). 0 < h \<and> h < nextHandle s)
      \<and> length (intervals s) \<le> 1
      \<and> (\<forall>t \<in> set (intervals s). pollRef s = Some (handle t) \<and> delay t = POLL_INTERVAL))"

subsection \<open>Example data\<close>

text \<open>Lessons and an output as the service returns them, for the concrete runs below.\<close>

definition example_output :: "string \<Rightarrow> string \<Rightarrow> string \<Rightarrow> Output" where
  "example_output oid ty text =
     \<lparr>output_id = oid, output_type = ty, content = text, is_edited = False,
      is_shared = False, output_created_at = ''2024-03-01T10:05:00Z''\<rparr>"

definition example_lesson :: "string \<Rightarrow> string \<Rightarrow> Output list \<Rightarrow> LessonDetail" where
  "example_lesson lid st outs =
     \<lparr>lesson_id = lid, student_id = ''S1'', student_name = ''Ada'',
      lesson_date = ''2024-03-01'', status = st, duration_seconds = None,
      error_message = (if st = ''FAILED'' then Some ''timeout'' else None),
      created_at = ''2024-03-01T10:00:00Z'', updated_at = ''2024-03-01T10:00:00Z'',
      transcript = None, outputs = outs\<rparr>"

text \<open>
  States of a page that loads lesson \<^verbatim>\<open>L1\<close>: waiting for the first load, polling
  after a load that returned TRANSCRIBING, the same with a tick's request in flight,
  and idle after a load that returned FAILED or COMPLETED.
\<close>

definition completed_lesson :: LessonDetail where
  "completed_lesson =
     example_lesson ''L1'' ''COMPLETED''
       [example_output ''o1'' ''STUDENT_RECAP'' ''Great work on scales'',
        example_output ''o2'' ''PRACTICE_PLAN'' ''Ten minutes a day'',
        example_output ''o3'' ''PARENT_EMAIL'' ''Dear parent'']"

definition loading_page :: page where
  "loading_page = initial_page\<lparr>inflight := [LoadFetch ''L1''], requests := [GetLesson ''L1'']\<rparr>"

definition polling_page :: page where
  "polling_page =
     \<lparr>lesson = Some (example_lesson ''L1'' ''TRANSCRIBING'' []), isLoading = False,
      isRetrying = False, pollRef = Some 1,
      intervals = [\<lparr>handle = 1, delay = 2000, target = ''L1''\<rparr>], nextHandle = 2,
      inflight = [], requests = [GetLesson ''L1''], console = [], navigated = []\<rparr>"

definition ticking_page :: page where
  "ticking_page =
     polling_page\<lparr>inflight := [TickFetch ''L1''], requests := [GetLesson ''L1'', GetLesson ''L1'']\<rparr>"

definition failed_page :: page where
  "failed_page =
     \<lparr>lesson = Some (example_lesson ''L1'' ''FAILED'' []), isLoading = False,
      isRetrying = False, pollRef = None, intervals = [], nextHandle = 1,
      inflight = [], requests = [GetLesson ''L1''], console = [], navigated = []\<rparr>"

definition completed_page :: page where
  "completed_page = failed_page\<lparr>lesson := Some completed_lesson\<rparr>"



text \<open>The page after a retry whose reload returned FAILED again.\<close>

definition retried_page :: page where
  "retried_page =
     failed_page\<lparr>pollRef := Some 1,
       intervals := [\<lparr>handle = 1, delay = 2000, target = ''L1''\<rparr>], nextHandle := 2,
       requests := [GetLesson ''L1'', ProcessLesson ''L1'', GetLesson ''L1'']\<rparr>"

section \<open>Properties of the lookup tables\<close>

lemma js_or_truthy: "truthy (js_or v d)"
  by (simp add: js_or_def)

lemma js_field_truthy: "truthy v \<Longrightarrow> \<exists>r. js_field v f = Inr r"
  by (cases v) simp_all

lemma StatusBadge_returns: "\<exists>sp. StatusBadge st = Inr sp"
proof (cases "js_get statusConfig st")
  case (Own v)
  then show ?thesis by (simp add: StatusBadge_def js_or_def)
next
  case (Inherited k)
  then show ?thesis by (simp add: StatusBadge_def js_or_def)
next
  case Undefined
  then show ?thesis by (simp add: StatusBadge_def js_or_def)
qed

lemma StatusBadge_known:
  "StatusBadge ''CREATED'' = Inr \<lparr>className = badge_classes @ ''bg-gray-600'', children = Some ''Created''\<rparr>"
  "StatusBadge ''UPLOADED'' = Inr \<lparr>className = badge_classes @ ''bg-blue-600'', children = Some ''Uploaded''\<rparr>"
  "StatusBadge ''TRANSCRIBING'' = Inr \<lparr>className = badge_classes @ ''bg-yellow-600'', children = Some ''Transcribing...''\<rparr>"
  "StatusBadge ''EXTRACTING'' = Inr \<lparr>className = badge_classes @ ''bg-yellow-600'', children = Some ''Analyzing...''\<rparr>"
  "StatusBadge ''GENERATING'' = Inr \<lparr>className = badge_classes @ ''bg-yellow-600'', children = Some ''Generating...''\<rparr>"
  "StatusBadge ''COMPLETED'' = Inr \<lparr>className = badge_classes @ ''bg-emerald-600'', children = Some ''Completed''\<rparr>"
  "StatusBadge ''FAILED'' = Inr \<lparr>className = badge_classes @ ''bg-red-600'', children = Some ''Failed''\<rparr>"
  by (simp_all add: StatusBadge_def statusConfig_def js_get_def js_or_def)

lemma StatusBadge_fallback:
  assumes "st \<notin> fst ` set statusConfig" and "st \<notin> set object_prototype_keys"
  shows "StatusBadge st = Inr \<lparr>className = badge_classes @ ''bg-gray-600'', children = Some st\<rparr>"
proof -
  from assms(1) have "map_of statusConfig st = None"
    by (simp add: map_of_eq_None_iff)
  with assms(2) have "js_get statusConfig st = Undefined"
    by (simp add: js_get_def)
  then show ?thesis
    by (simp add: StatusBadge_def js_or_def)
qed

text \<open>
  C8. Claimed: every unrecognised status renders as-is, the raw string being the label,
  with the neutral default colour. The status \<^verbatim>\<open>toString\<close> is not one of the seven
  table keys, yet the lookup finds the inherited \<^verbatim>\<open>Object.prototype.toString\<close>, which is
  truthy, so the fallback literal is not used: the badge renders no label at all and its
  colour class is the text \<^verbatim>\<open>undefined\<close>.
\<close>

theorem StatusBadge_inherited_key:
  "StatusBadge ''toString'' = Inr \<lparr>className = badge_classes @ ''undefined'', children = None\<rparr>
   \<and> ''toString'' \<notin> fst ` set statusConfig
   \<and> StatusBadge ''toString'' \<noteq> Inr \<lparr>className = badge_classes @ ''bg-gray-600'', children = Some ''toString''\<rparr>"
  by (simp add: StatusBadge_def statusConfig_def js_get_def js_or_def object_prototype_keys_def)

lemma OutputCard_returns: "\<exists>h. OutputCard out = Inr h"
proof (cases "js_get outputTypeLabels (output_type out)")
  case (Own v)
  then show ?thesis by (simp add: OutputCard_def js_or_def)
next
  case (Inherited k)
  then show ?thesis by (simp add: OutputCard_def js_or_def)
next
  case Undefined
  then show ?thesis by (simp add: OutputCard_def js_or_def)
qed

lemma OutputCard_known:
  "output_type out = ''STUDENT_RECAP'' \<Longrightarrow>
     OutputCard out = Inr \<lparr>header_icon = Some [CHR 0xF0, CHR 0x9F, CHR 0x93, CHR 0x9D], header_title = Some ''Student Recap''\<rparr>"
  "output_type out = ''PRACTICE_PLAN'' \<Longrightarrow>
     OutputCard out = Inr \<lparr>header_icon = Some [CHR 0xF0, CHR 0x9F, CHR 0x93, CHR 0x85], header_title = Some ''Practice Plan''\<rparr>"
  "output_type out = ''PARENT_EMAIL'' \<Longrightarrow>
     OutputCard out = Inr \<lparr>header_icon = Some [CHR 0xE2, CHR 0x9C, CHR 0x89, CHR 0xEF, CHR 0xB8, CHR 0x8F], header_title = Some ''Parent Email''\<rparr>"
  by (simp_all add: OutputCard_def outputTypeLabels_def js_get_def js_or_def)

lemma OutputCard_fallback:
  assumes "output_type out \<notin> fst ` set outputTypeLabels"
    and "output_type out \<notin> set object_prototype_keys"
  shows "OutputCard out = Inr \<lparr>header_icon = Some default_icon, header_title = Some (output_type out)\<rparr>"
proof -
  from assms(1) have "map_of outputTypeLabels (output_type out) = None"
    by (simp add: map_of_eq_None_iff)
  with assms(2) have "js_get outputTypeLabels (output_type out) = Undefined"
    by (simp add: js_get_def)
  then show ?thesis
    by (simp add: OutputCard_def js_or_def)
qed

text \<open>
  C10. Claimed: any output type other than the three known tags falls back to the raw
  \<^verbatim>\<open>output_type\<close> string as the title, with the default icon. The output type
  \<^verbatim>\<open>constructor\<close> is not a key of the table, yet the lookup finds the inherited
  \<^verbatim>\<open>Object.prototype.constructor\<close>, which is truthy, so the fallback literal is not used:
  the card renders neither a title nor an icon.
\<close>

theorem OutputCard_inherited_key:
  "OutputCard (example_output ''o1'' ''constructor'' ''text'') = Inr \<lparr>header_icon = None, header_title = None\<rparr>
   \<and> ''constructor'' \<notin> fst ` set outputTypeLabels
   \<and> OutputCard (example_output ''o1'' ''constructor'' ''text'')
       \<noteq> Inr \<lparr>header_icon = Some default_icon, header_title = Some ''constructor''\<rparr>"
  by (simp add: OutputCard_def outputTypeLabels_def js_get_def js_or_def
        object_prototype_keys_def example_output_def)

section \<open>The timer invariant\<close>

lemma timer_inv_cases:
  "timer_inv s \<Longrightarrow> intervals s = [] \<or> (\<exists>t. intervals s = [t] \<and> pollRef s = Some (handle t) \<and> delay t = POLL_INTERVAL \<and> 0 < handle t)"
  by (cases "intervals s") (auto simp: timer_inv_def)

lemma clear_current_empty: "timer_inv s \<Longrightarrow> intervals (clear_current s) = []"
  by (cases "intervals s") (auto simp: timer_inv_def clear_current_def clearInterval_def split: option.splits)

lemma clear_current_fields [simp]:
  "pollRef (clear_current s) = pollRef s" "nextHandle (clear_current s) = nextHandle s"
  "lesson (clear_current s) = lesson s" "requests (clear_current s) = requests s"
  "inflight (clear_current s) = inflight s"
  by (simp_all add: clear_current_def clearInterval_def split: option.splits)

lemma startPolling_intervals:
  "timer_inv s \<Longrightarrow> intervals (startPolling lid s) = [\<lparr>handle = nextHandle s, delay = POLL_INTERVAL, target = lid\<rparr>]"
  by (simp add: startPolling_def setInterval_def clear_current_empty)

lemma startPolling_pollRef: "pollRef (startPolling lid s) = Some (nextHandle s)"
  by (simp add: startPolling_def setInterval_def)

lemma startPolling_nextHandle: "nextHandle (startPolling lid s) = nextHandle s + 1"
  by (simp add: startPolling_def setInterval_def)

lemma timer_inv_startPolling: "timer_inv s \<Longrightarrow> timer_inv (startPolling lid s)"
  using startPolling_intervals [of s lid]
  by (simp add: timer_inv_def startPolling_pollRef startPolling_nextHandle del: One_nat_def)

lemma timer_inv_clear_current: "timer_inv s \<Longrightarrow> timer_inv (clear_current s)"
  using clear_current_empty [of s] by (simp add: timer_inv_def)

lemma timer_inv_frame:
  "timer_inv s \<Longrightarrow> pollRef s' = pollRef s \<Longrightarrow> intervals s' = intervals s \<Longrightarrow> nextHandle s' = nextHandle s \<Longrightarrow> timer_inv s'"
  by (simp add: timer_inv_def)

lemma timer_inv_tick_resume: "timer_inv s \<Longrightarrow> timer_inv (tick_resume r s)"
  by (cases r; cases "intervals s") (auto simp: timer_inv_def tick_resume_def clearInterval_def Let_def split: option.splits)

lemma timer_inv_loadLesson_resume: "timer_inv s \<Longrightarrow> timer_inv (loadLesson_resume lid r s)"
proof (cases r)
  case (Resolved d)
  assume inv: "timer_inv s"
  then have "timer_inv (s\<lparr>lesson := Some d\<rparr>)" by (rule timer_inv_frame) simp_all
  then have "timer_inv (evaluateAndSchedule lid d (s\<lparr>lesson := Some d\<rparr>))"
    by (simp add: evaluateAndSchedule_def timer_inv_startPolling)
  then show ?thesis using Resolved
    by (auto simp: loadLesson_resume_def elim: timer_inv_frame)
next
  case (Rejected e)
  assume "timer_inv s"
  then show ?thesis using Rejected
    by (auto simp: loadLesson_resume_def elim: timer_inv_frame)
qed

lemma timer_inv_await: "timer_inv s \<Longrightarrow> timer_inv (await c p s)"
  by (erule timer_inv_frame) (simp_all add: await_def)

lemma timer_inv_settle: "timer_inv s \<Longrightarrow> timer_inv (settle p s)"
  by (erule timer_inv_frame) (simp_all add: settle_def)

lemma timer_inv_handleOutputUpdate: "timer_inv s \<Longrightarrow> timer_inv (handleOutputUpdate c u s)"
  by (erule timer_inv_frame) (simp_all add: handleOutputUpdate_def split: option.splits)

lemma timer_inv_handleSave_resume: "timer_inv s \<Longrightarrow> timer_inv (handleSave_resume c r s)"
  by (cases r) (auto simp: handleSave_resume_def timer_inv_handleOutputUpdate elim: timer_inv_frame)

lemma timer_inv_handleRevert_resume: "timer_inv s \<Longrightarrow> timer_inv (handleRevert_resume c r s)"
  by (cases r) (auto simp: handleRevert_resume_def timer_inv_handleOutputUpdate elim: timer_inv_frame)

lemma timer_inv_handleRetry_begin: "timer_inv s \<Longrightarrow> timer_inv (handleRetry_begin lid s)"
  by (erule timer_inv_frame) (simp_all add: handleRetry_begin_def await_def)

lemma timer_inv_handleRetry_processed: "timer_inv s \<Longrightarrow> timer_inv (handleRetry_processed lid r s)"
  by (erule timer_inv_frame) (simp_all add: handleRetry_processed_def await_def split: response.splits)

lemma timer_inv_handleRetry_loaded: "timer_inv s \<Longrightarrow> timer_inv (handleRetry_loaded lid r s)"
proof -
  assume "timer_inv s"
  then have "timer_inv (startPolling lid (loadLesson_resume lid r s))"
    by (intro timer_inv_startPolling timer_inv_loadLesson_resume)
  then show ?thesis
    unfolding handleRetry_loaded_def by (rule timer_inv_frame) simp_all
qed

lemma timer_inv_effect_body: "timer_inv s \<Longrightarrow> timer_inv (effect_body l s)"
  by (simp add: effect_body_def loadLesson_begin_def timer_inv_await split: option.splits)

lemma timer_inv_step: "timer_inv s \<Longrightarrow> step e s = Some s' \<Longrightarrow> timer_inv s'"
  by (cases e)
     (auto simp: timer_inv_effect_body effect_cleanup_def timer_inv_clear_current
        timer_inv_loadLesson_resume timer_inv_settle tick_begin_def timer_inv_await
        timer_inv_tick_resume timer_inv_handleRetry_begin timer_inv_handleRetry_processed
        timer_inv_handleRetry_loaded timer_inv_handleSave_resume timer_inv_handleRevert_resume
        handleSave_begin_def handleRevert_begin_def
        split: if_splits option.splits)

lemma timer_inv_run: "run es s = Some s' \<Longrightarrow> timer_inv s \<Longrightarrow> timer_inv s'"
  by (induction es arbitrary: s) (auto split: option.splits dest: timer_inv_step)

lemma timer_inv_initial: "timer_inv initial_page"
  by (simp add: timer_inv_def initial_page_def)

lemma startPolling_frame [simp]:
  "lesson (startPolling lid s) = lesson s" "requests (startPolling lid s) = requests s"
  "inflight (startPolling lid s) = inflight s" "isLoading (startPolling lid s) = isLoading s"
  "console (startPolling lid s) = console s" "navigated (startPolling lid s) = navigated s"
  by (simp_all add: startPolling_def setInterval_def clear_current_def clearInterval_def
        split: option.splits)

lemma reachable_inv: "run es initial_page = Some s \<Longrightarrow> timer_inv s"
  by (erule timer_inv_run) (rule timer_inv_initial)

lemma timer_inv_fresh: "timer_inv s \<Longrightarrow> pollRef s \<noteq> Some (nextHandle s)"
  by (auto simp: timer_inv_def)

lemma tick_resume_lesson: "lesson (tick_resume (Resolved data) s) = Some data"
  by (simp add: tick_resume_def clearInterval_def Let_def split: option.splits)

lemma tick_resume_rejected:
  "tick_resume (Rejected err) s = s\<lparr>console := console s @ [''Polling error'']\<rparr>"
  by (simp add: tick_resume_def)

lemma tick_resume_terminal:
  assumes "timer_inv s" "status data \<notin> set PROCESSING_STATUSES"
  shows "intervals (tick_resume (Resolved data) s) = []"
  using assms by (cases "intervals s")
    (auto simp: timer_inv_def tick_resume_def clearInterval_def Let_def split: option.splits)

lemma tick_resume_terminal_pollRef:
  assumes "timer_inv s" "status data \<notin> set PROCESSING_STATUSES"
  shows "pollRef (tick_resume (Resolved data) s) = None"
  using assms
  by (auto simp: timer_inv_def tick_resume_def clearInterval_def Let_def split: option.splits)

lemma tick_resume_processing:
  assumes "status data \<in> set PROCESSING_STATUSES"
  shows "tick_resume (Resolved data) s = s\<lparr>lesson := Some data\<rparr>"
  using assms by (simp add: tick_resume_def)

lemma step_TimerFires:
  assumes "t \<in> set (intervals s)" "length (intervals s) \<le> 1"
  shows "step (TimerFires (handle t)) s = Some (tick_begin (target t) s)"
proof -
  from assms have "intervals s = [t]"
    by (cases "intervals s") auto
  then show ?thesis by simp
qed

section \<open>Concrete runs\<close>

lemmas page_defs =
  initial_page_def effect_body_def effect_cleanup_def loadLesson_begin_def
  loadLesson_resume_def evaluateAndSchedule_def startPolling_def setInterval_def
  clear_current_def clearInterval_def await_def settle_def tick_begin_def tick_resume_def
  handleRetry_begin_def handleRetry_processed_def handleRetry_loaded_def retry_offered_def
  handleSave_begin_def handleSave_resume_def handleRevert_begin_def handleRevert_resume_def
  handleOutputUpdate_def card_shown_def
  PROCESSING_STATUSES_def POLL_INTERVAL_def example_lesson_def example_output_def

lemma polling_page_run:
  "run [Effect (Some ''L1''), LoadResponse ''L1'' (Resolved (example_lesson ''L1'' ''TRANSCRIBING'' []))]
     initial_page = Some polling_page"
  by (simp add: page_defs polling_page_def)

lemma failed_page_run:
  "run [Effect (Some ''L1''), LoadResponse ''L1'' (Resolved (example_lesson ''L1'' ''FAILED'' []))]
     initial_page = Some failed_page"
  by (simp add: page_defs failed_page_def)

lemma loading_page_run: "run [Effect (Some ''L1'')] initial_page = Some loading_page"
  by (simp add: page_defs loading_page_def)

lemma ticking_page_run:
  "run [Effect (Some ''L1''), LoadResponse ''L1'' (Resolved (example_lesson ''L1'' ''TRANSCRIBING'' [])),
        TimerFires 1] initial_page = Some ticking_page"
  by (simp add: page_defs ticking_page_def polling_page_def)

section \<open>The poll timer\<close>

text \<open>
  C1. In every state a page reaches, whatever the sequence of events, at most one
  interval timer is active. \<^verbatim>\<open>startPolling\<close> first clears the timer
  \<^verbatim>\<open>pollRef.current\<close> names, which leaves none, and then registers one: exactly one
  timer is active after it, under a handle that differs from the prior one. The
  scheduling step of \<^verbatim>\<open>loadLesson\<close> is \<^verbatim>\<open>startPolling\<close> for a processing status,
  and invoking either twice in succession still leaves exactly one active timer.
\<close>

theorem one_poll_timer:
  assumes "run es initial_page = Some s"
  shows "length (intervals s) \<le> 1
     \<and> intervals (clear_current s) = []
     \<and> intervals (startPolling lid s) = [\<lparr>handle = nextHandle s, delay = 2000, target = lid\<rparr>]
     \<and> pollRef (startPolling lid s) = Some (nextHandle s)
     \<and> pollRef s \<noteq> Some (nextHandle s)
     \<and> length (intervals (startPolling lid' (startPolling lid s))) = 1
     \<and> (status data \<in> set PROCESSING_STATUSES \<longrightarrow>
          evaluateAndSchedule lid data s = startPolling lid s
          \<and> length (intervals (evaluateAndSchedule lid data s)) = 1
          \<and> (status data' \<in> set PROCESSING_STATUSES \<longrightarrow>
               length (intervals (evaluateAndSchedule lid' data' (evaluateAndSchedule lid data s))) = 1))"
proof -
  have inv: "timer_inv s" using assms by (rule reachable_inv)
  have inv': "timer_inv (startPolling lid s)" using inv by (rule timer_inv_startPolling)
  have one: "length (intervals s) \<le> 1" using inv by (simp add: timer_inv_def)
  have start: "intervals (startPolling lid s) = [\<lparr>handle = nextHandle s, delay = 2000, target = lid\<rparr>]"
    using startPolling_intervals [OF inv] by (simp add: POLL_INTERVAL_def)
  have twice: "length (intervals (startPolling lid' (startPolling lid s))) = 1"
    by (simp add: startPolling_intervals [OF inv'])
  show ?thesis
    using one start twice clear_current_empty [OF inv] timer_inv_fresh [OF inv]
    by (simp add: evaluateAndSchedule_def startPolling_pollRef)
qed

theorem one_poll_timer_witness:
  "run [Effect (Some ''L1''), LoadResponse ''L1'' (Resolved (example_lesson ''L1'' ''TRANSCRIBING'' []))]
     initial_page = Some polling_page
   \<and> status (example_lesson ''L1'' ''UPLOADED'' []) \<in> set PROCESSING_STATUSES
   \<and> status (example_lesson ''L1'' ''GENERATING'' []) \<in> set PROCESSING_STATUSES
   \<and> length (intervals polling_page) \<le> 1
   \<and> intervals (clear_current polling_page) = []
   \<and> intervals (startPolling ''L1'' polling_page) = [\<lparr>handle = 2, delay = 2000, target = ''L1''\<rparr>]
   \<and> length (intervals (evaluateAndSchedule ''L1'' (example_lesson ''L1'' ''UPLOADED'' []) polling_page)) = 1
   \<and> length (intervals (evaluateAndSchedule ''L1'' (example_lesson ''L1'' ''GENERATING'' [])
        (evaluateAndSchedule ''L1'' (example_lesson ''L1'' ''UPLOADED'' []) polling_page))) = 1"
proof -
  have up: "status (example_lesson ''L1'' ''UPLOADED'' []) \<in> set PROCESSING_STATUSES"
    and gen: "status (example_lesson ''L1'' ''GENERATING'' []) \<in> set PROCESSING_STATUSES"
    by (simp_all add: PROCESSING_STATUSES_def example_lesson_def)
  have nh: "nextHandle polling_page = 2"
    by (simp add: polling_page_def)
  note t = one_poll_timer [OF polling_page_run, where lid = "''L1''" and lid' = "''L1''"
      and data = "example_lesson ''L1'' ''UPLOADED'' []"
      and data' = "example_lesson ''L1'' ''GENERATING'' []"]
  from t have a: "length (intervals polling_page) \<le> 1"
    and b: "intervals (clear_current polling_page) = []"
    and c: "intervals (startPolling ''L1'' polling_page)
              = [\<lparr>handle = nextHandle polling_page, delay = 2000, target = ''L1''\<rparr>]"
    by blast+
  from t up have d: "length (intervals (evaluateAndSchedule ''L1''
      (example_lesson ''L1'' ''UPLOADED'' []) polling_page)) = 1"
    by blast
  from t up gen have e: "length (intervals (evaluateAndSchedule ''L1''
      (example_lesson ''L1'' ''GENERATING'' [])
      (evaluateAndSchedule ''L1'' (example_lesson ''L1'' ''UPLOADED'' []) polling_page))) = 1"
    by blast
  show ?thesis
    using polling_page_run up gen a b c [unfolded nh] d e by blast
qed

text \<open>
  C2. Claimed: once \<^verbatim>\<open>dispose()\<close> has cancelled the timer, the completion of a tick's
  request that was already in flight does not change the held state. The page loads
  \<^verbatim>\<open>L1\<close> as TRANSCRIBING, the timer fires and its request is in flight; the route
  parameter changes to \<^verbatim>\<open>L2\<close>, so the effect's cleanup runs and clears the timer and
  the effect runs again, the component staying mounted. The request of the tick then
  resolves with the COMPLETED lesson and the held lesson is replaced by it: the callback
  has no check of its timer handle.
\<close>

theorem late_tick_applied_after_dispose:
  "map_option lesson
     (run [Effect (Some ''L1''),
           LoadResponse ''L1'' (Resolved (example_lesson ''L1'' ''TRANSCRIBING'' [])),
           TimerFires 1, Cleanup, Effect (Some ''L2'')] initial_page)
     = Some (Some (example_lesson ''L1'' ''TRANSCRIBING'' []))
   \<and> map_option intervals
     (run [Effect (Some ''L1''),
           LoadResponse ''L1'' (Resolved (example_lesson ''L1'' ''TRANSCRIBING'' [])),
           TimerFires 1, Cleanup, Effect (Some ''L2'')] initial_page)
     = Some []
   \<and> map_option lesson
     (run [Effect (Some ''L1''),
           LoadResponse ''L1'' (Resolved (example_lesson ''L1'' ''TRANSCRIBING'' [])),
           TimerFires 1, Cleanup, Effect (Some ''L2''),
           TickResponse ''L1'' (Resolved completed_lesson)] initial_page)
     = Some (Some completed_lesson)
   \<and> completed_lesson \<noteq> example_lesson ''L1'' ''TRANSCRIBING'' []"
  by (simp add: page_defs completed_lesson_def)

text \<open>
  C2, as the code has it. The cleanup leaves no active timer, so no further tick starts;
  a request of a tick that is already in flight is neither aborted nor ignored: when it
  resolves after the cleanup, or after a later \<^verbatim>\<open>startPolling\<close>, its result replaces
  the held lesson. Only a request that rejects leaves the held lesson as it was.
\<close>

theorem dispose_keeps_inflight_tick:
  assumes "run es initial_page = Some s" and "TickFetch lid \<in> set (inflight s)"
  shows "intervals (effect_cleanup s) = []
     \<and> step (TimerFires h) (effect_cleanup s) = None
     \<and> (\<exists>s'. step (TickResponse lid (Resolved data)) (effect_cleanup s) = Some s'
              \<and> lesson s' = Some data)
     \<and> (\<exists>s'. step (TickResponse lid (Resolved data)) (startPolling lid' s) = Some s'
              \<and> lesson s' = Some data)
     \<and> (\<exists>s'. step (TickResponse lid (Rejected err)) (effect_cleanup s) = Some s'
              \<and> lesson s' = lesson s)"
proof -
  have inv: "timer_inv s" using assms(1) by (rule reachable_inv)
  have none: "intervals (effect_cleanup s) = []"
    using clear_current_empty [OF inv] by (simp add: effect_cleanup_def)
  have pend: "TickFetch lid \<in> set (inflight (effect_cleanup s))"
    using assms(2) by (simp add: effect_cleanup_def)
  have pend': "TickFetch lid \<in> set (inflight (startPolling lid' s))"
    using assms(2) by (simp add: startPolling_def setInterval_def)
  show ?thesis
    using none pend pend'
    by (simp add: tick_resume_lesson tick_resume_rejected settle_def effect_cleanup_def)
qed

theorem dispose_keeps_inflight_tick_witness:
  "run [Effect (Some ''L1''), LoadResponse ''L1'' (Resolved (example_lesson ''L1'' ''TRANSCRIBING'' [])),
        TimerFires 1] initial_page = Some ticking_page
   \<and> TickFetch ''L1'' \<in> set (inflight ticking_page)
   \<and> intervals (effect_cleanup ticking_page) = []
   \<and> step (TimerFires 1) (effect_cleanup ticking_page) = None
   \<and> (\<exists>s'. step (TickResponse ''L1'' (Resolved (example_lesson ''L1'' ''COMPLETED'' [])))
               (effect_cleanup ticking_page) = Some s'
            \<and> lesson s' = Some (example_lesson ''L1'' ''COMPLETED'' []))"
proof -
  have pend: "TickFetch ''L1'' \<in> set (inflight ticking_page)"
    by (simp add: ticking_page_def)
  from dispose_keeps_inflight_tick [OF ticking_page_run pend, where h = 1
      and data = "example_lesson ''L1'' ''COMPLETED'' []"]
  show ?thesis using ticking_page_run pend by blast
qed

text \<open>
  C3. Claimed: for a terminal status the scheduling step of \<^verbatim>\<open>loadLesson\<close> cancels any
  active timer and leaves none. The route parameter changes from \<^verbatim>\<open>L1\<close> to \<^verbatim>\<open>L2\<close>
  while the load of \<^verbatim>\<open>L1\<close> is in flight; that load returns TRANSCRIBING and starts
  timer 1, then the load of \<^verbatim>\<open>L2\<close> returns COMPLETED and timer 1 is still active.
  Likewise the step applied to a FAILED lesson on a polling page keeps the timer.
\<close>

theorem terminal_load_keeps_timer:
  "run [Effect (Some ''L1''), Cleanup, Effect (Some ''L2''),
        LoadResponse ''L1'' (Resolved (example_lesson ''L1'' ''TRANSCRIBING'' [])),
        LoadResponse ''L2'' (Resolved (example_lesson ''L2'' ''COMPLETED'' []))] initial_page
     = Some (polling_page\<lparr>lesson := Some (example_lesson ''L2'' ''COMPLETED'' []),
               requests := [GetLesson ''L1'', GetLesson ''L2'']\<rparr>)
   \<and> intervals (polling_page\<lparr>lesson := Some (example_lesson ''L2'' ''COMPLETED'' []),
               requests := [GetLesson ''L1'', GetLesson ''L2'']\<rparr>)
       = [\<lparr>handle = 1, delay = 2000, target = ''L1''\<rparr>]
   \<and> status (example_lesson ''L1'' ''FAILED'' []) = ''FAILED''
   \<and> intervals (evaluateAndSchedule ''L1'' (example_lesson ''L1'' ''FAILED'' []) polling_page)
       = [\<lparr>handle = 1, delay = 2000, target = ''L1''\<rparr>]"
  by (simp add: page_defs polling_page_def)

text \<open>
  C3, as the code has it. For a terminal status the scheduling step of \<^verbatim>\<open>loadLesson\<close>
  starts no timer and cancels none: the load stores the lesson and leaves the timers
  and \<^verbatim>\<open>pollRef.current\<close> as they were, so no timer is active after it when none was
  active before it.
\<close>

theorem terminal_load_leaves_timers:
  assumes "status data = ''COMPLETED'' \<or> status data = ''FAILED''"
  shows "evaluateAndSchedule lid data s = s
     \<and> lesson (loadLesson_resume lid (Resolved data) s) = Some data
     \<and> intervals (loadLesson_resume lid (Resolved data) s) = intervals s
     \<and> pollRef (loadLesson_resume lid (Resolved data) s) = pollRef s
     \<and> (intervals s = [] \<longrightarrow> intervals (loadLesson_resume lid (Resolved data) s) = [])"
  using assms
  by (auto simp: evaluateAndSchedule_def loadLesson_resume_def PROCESSING_STATUSES_def)

theorem terminal_load_leaves_timers_witness:
  "(status (example_lesson ''L1'' ''FAILED'' []) = ''COMPLETED''
      \<or> status (example_lesson ''L1'' ''FAILED'' []) = ''FAILED'')
   \<and> evaluateAndSchedule ''L1'' (example_lesson ''L1'' ''FAILED'' []) loading_page = loading_page
   \<and> intervals (loadLesson_resume ''L1'' (Resolved (example_lesson ''L1'' ''FAILED'' [])) loading_page) = []"
proof -
  have st: "status (example_lesson ''L1'' ''FAILED'' []) = ''COMPLETED''
      \<or> status (example_lesson ''L1'' ''FAILED'' []) = ''FAILED''"
    by (simp add: example_lesson_def)
  have none: "intervals loading_page = []"
    by (simp add: loading_page_def initial_page_def)
  from terminal_load_leaves_timers [OF st, of "''L1''" loading_page]
  show ?thesis using st none by metis
qed

text \<open>
  C4. In every state a page reaches, a tick whose request resolves replaces the held
  lesson by the fetched one; when the fetched status is outside the processing set no
  timer is active afterwards and \<^verbatim>\<open>pollRef.current\<close> is null, otherwise the timers are
  untouched. Every active timer is registered with a period of 2000 ms, and its firing
  sends \<^verbatim>\<open>lessonsApi.get\<close> for the lesson and keeps the timer registered.
\<close>

theorem pollTick_success:
  assumes "run es initial_page = Some s"
  shows "lesson (tick_resume (Resolved data) s) = Some data
     \<and> (status data \<notin> set PROCESSING_STATUSES \<longrightarrow>
          intervals (tick_resume (Resolved data) s) = []
          \<and> pollRef (tick_resume (Resolved data) s) = None)
     \<and> (status data \<in> set PROCESSING_STATUSES \<longrightarrow>
          intervals (tick_resume (Resolved data) s) = intervals s
          \<and> pollRef (tick_resume (Resolved data) s) = pollRef s)
     \<and> (\<forall>t \<in> set (intervals s).
          delay t = 2000
          \<and> (\<exists>s1. step (TimerFires (handle t)) s = Some s1
                \<and> requests s1 = requests s @ [GetLesson (target t)]
                \<and> intervals s1 = intervals s
                \<and> (\<exists>s2. step (TickResponse (target t) (Resolved data)) s1 = Some s2
                      \<and> lesson s2 = Some data
                      \<and> (status data \<notin> set PROCESSING_STATUSES \<longrightarrow>
                            intervals s2 = [] \<and> pollRef s2 = None))))"
proof -
  have inv: "timer_inv s" using assms by (rule reachable_inv)
  have one: "length (intervals s) \<le> 1" using inv by (simp add: timer_inv_def)
  have tick: "delay t = 2000
      \<and> (\<exists>s1. step (TimerFires (handle t)) s = Some s1
            \<and> requests s1 = requests s @ [GetLesson (target t)]
            \<and> intervals s1 = intervals s
            \<and> (\<exists>s2. step (TickResponse (target t) (Resolved data)) s1 = Some s2
                  \<and> lesson s2 = Some data
                  \<and> (status data \<notin> set PROCESSING_STATUSES \<longrightarrow>
                        intervals s2 = [] \<and> pollRef s2 = None)))"
    if t: "t \<in> set (intervals s)" for t
  proof -
    let ?s1 = "tick_begin (target t) s"
    have inv1: "timer_inv (settle (TickFetch (target t)) ?s1)"
      using inv by (simp add: tick_begin_def timer_inv_await timer_inv_settle)
    have "delay t = 2000" using inv t by (simp add: timer_inv_def POLL_INTERVAL_def)
    moreover have "step (TimerFires (handle t)) s = Some ?s1"
      using t one by (rule step_TimerFires)
    moreover have "requests ?s1 = requests s @ [GetLesson (target t)]" "intervals ?s1 = intervals s"
      by (simp_all add: tick_begin_def await_def)
    moreover have "step (TickResponse (target t) (Resolved data)) ?s1
        = Some (tick_resume (Resolved data) (settle (TickFetch (target t)) ?s1))"
      by (simp add: tick_begin_def await_def)
    ultimately show ?thesis
      using tick_resume_terminal [OF inv1] tick_resume_terminal_pollRef [OF inv1]
      by (simp add: tick_resume_lesson)
  qed
  show ?thesis
    using tick tick_resume_terminal [OF inv] tick_resume_terminal_pollRef [OF inv]
    by (simp add: tick_resume_lesson tick_resume_processing)
qed

theorem pollTick_success_witness:
  "run [Effect (Some ''L1''), LoadResponse ''L1'' (Resolved (example_lesson ''L1'' ''TRANSCRIBING'' []))]
     initial_page = Some polling_page
   \<and> intervals polling_page = [\<lparr>handle = 1, delay = 2000, target = ''L1''\<rparr>]
   \<and> status completed_lesson \<notin> set PROCESSING_STATUSES
   \<and> (\<exists>s1. step (TimerFires 1) polling_page = Some s1
         \<and> requests s1 = requests polling_page @ [GetLesson ''L1'']
         \<and> (\<exists>s2. step (TickResponse ''L1'' (Resolved completed_lesson)) s1 = Some s2
               \<and> lesson s2 = Some completed_lesson
               \<and> intervals s2 = [] \<and> pollRef s2 = None))"
proof -
  let ?t = "\<lparr>handle = 1, delay = 2000, target = ''L1''\<rparr>"
  have iv: "intervals polling_page = [?t]"
    by (simp add: polling_page_def)
  have fin: "status completed_lesson \<notin> set PROCESSING_STATUSES"
    by (simp add: completed_lesson_def example_lesson_def PROCESSING_STATUSES_def)
  have mem: "?t \<in> set (intervals polling_page)"
    by (simp add: iv)
  from pollTick_success [OF polling_page_run, of completed_lesson] mem
  have "\<exists>s1. step (TimerFires (handle ?t)) polling_page = Some s1
         \<and> requests s1 = requests polling_page @ [GetLesson (target ?t)]
         \<and> intervals s1 = intervals polling_page
         \<and> (\<exists>s2. step (TickResponse (target ?t) (Resolved completed_lesson)) s1 = Some s2
               \<and> lesson s2 = Some completed_lesson
               \<and> (status completed_lesson \<notin> set PROCESSING_STATUSES \<longrightarrow>
                     intervals s2 = [] \<and> pollRef s2 = None))"
    by blast
  moreover have "handle ?t = 1" "target ?t = ''L1''"
    by simp_all
  ultimately have "\<exists>s1. step (TimerFires 1) polling_page = Some s1
         \<and> requests s1 = requests polling_page @ [GetLesson ''L1'']
         \<and> intervals s1 = intervals polling_page
         \<and> (\<exists>s2. step (TickResponse ''L1'' (Resolved completed_lesson)) s1 = Some s2
               \<and> lesson s2 = Some completed_lesson
               \<and> (status completed_lesson \<notin> set PROCESSING_STATUSES \<longrightarrow>
                     intervals s2 = [] \<and> pollRef s2 = None))"
    by (simp only:)
  then show ?thesis
    using polling_page_run iv fin by blast
qed

text \<open>
  C5. In every state a page reaches, a tick whose request rejects only logs
  \<^verbatim>\<open>Polling error\<close>: the held lesson, \<^verbatim>\<open>pollRef.current\<close>, the active timers, the
  navigation and the requests sent are unchanged, and each active timer, registered
  with a period of 2000 ms, can fire again.
\<close>

theorem pollTick_failure:
  assumes "run es initial_page = Some s" and "TickFetch lid \<in> set (inflight s)"
  shows "\<exists>s'. step (TickResponse lid (Rejected err)) s = Some s'
          \<and> lesson s' = lesson s
          \<and> pollRef s' = pollRef s
          \<and> intervals s' = intervals s
          \<and> navigated s' = navigated s
          \<and> requests s' = requests s
          \<and> console s' = console s @ [''Polling error'']
          \<and> (\<forall>t \<in> set (intervals s').
                delay t = 2000
                \<and> step (TimerFires (handle t)) s' = Some (tick_begin (target t) s'))"
proof -
  let ?s' = "tick_resume (Rejected err) (settle (TickFetch lid) s)"
  have inv: "timer_inv ?s'"
    using reachable_inv [OF assms(1)] by (simp add: timer_inv_settle timer_inv_tick_resume)
  have one: "length (intervals ?s') \<le> 1" using inv by (simp add: timer_inv_def)
  have "delay t = 2000 \<and> step (TimerFires (handle t)) ?s' = Some (tick_begin (target t) ?s')"
    if "t \<in> set (intervals ?s')" for t
    using that inv step_TimerFires [OF that one] by (simp add: timer_inv_def POLL_INTERVAL_def)
  moreover have "step (TickResponse lid (Rejected err)) s = Some ?s'"
    using assms(2) by simp
  ultimately show ?thesis
    by (simp add: tick_resume_rejected settle_def)
qed

theorem pollTick_failure_witness:
  "run [Effect (Some ''L1''), LoadResponse ''L1'' (Resolved (example_lesson ''L1'' ''TRANSCRIBING'' [])),
        TimerFires 1] initial_page = Some ticking_page
   \<and> TickFetch ''L1'' \<in> set (inflight ticking_page)
   \<and> (\<exists>s'. step (TickResponse ''L1'' (Rejected ''Network Error'')) ticking_page = Some s'
          \<and> lesson s' = Some (example_lesson ''L1'' ''TRANSCRIBING'' [])
          \<and> pollRef s' = Some 1
          \<and> intervals s' = [\<lparr>handle = 1, delay = 2000, target = ''L1''\<rparr>]
          \<and> step (TimerFires 1) s' = Some (tick_begin ''L1'' s'))"
proof -
  have pend: "TickFetch ''L1'' \<in> set (inflight ticking_page)"
    by (simp add: ticking_page_def)
  have fields: "lesson ticking_page = Some (example_lesson ''L1'' ''TRANSCRIBING'' [])"
    "pollRef ticking_page = Some 1"
    "intervals ticking_page = [\<lparr>handle = 1, delay = 2000, target = ''L1''\<rparr>]"
    by (simp_all add: ticking_page_def polling_page_def)
  from pollTick_failure [OF ticking_page_run pend, of "''Network Error''"]
  obtain s' where s': "step (TickResponse ''L1'' (Rejected ''Network Error'')) ticking_page = Some s'"
    "lesson s' = lesson ticking_page" "pollRef s' = pollRef ticking_page"
    "intervals s' = intervals ticking_page"
    "\<forall>t \<in> set (intervals s'). delay t = 2000
        \<and> step (TimerFires (handle t)) s' = Some (tick_begin (target t) s')"
    by blast
  from s'(4,5) fields(3) have "step (TimerFires 1) s' = Some (tick_begin ''L1'' s')"
    by simp
  with s'(1-4) fields ticking_page_run pend show ?thesis
    by auto
qed

text \<open>
  C6. When the request of \<^verbatim>\<open>loadLesson\<close> rejects, the page logs the failure and
  navigates to \<^verbatim>\<open>/\<close>; it sends no further request (no retry), registers no timer,
  leaves \<^verbatim>\<open>pollRef.current\<close> and the held lesson as they were and ends the loading
  state.
\<close>

theorem loadLesson_failure:
  assumes "LoadFetch lid \<in> set (inflight s)"
  shows "\<exists>s'. step (LoadResponse lid (Rejected err)) s = Some s'
          \<and> navigated s' = navigated s @ [''/'']
          \<and> console s' = console s @ [''Failed to load lesson'']
          \<and> requests s' = requests s
          \<and> inflight s' = remove1 (LoadFetch lid) (inflight s)
          \<and> intervals s' = intervals s
          \<and> pollRef s' = pollRef s
          \<and> lesson s' = lesson s
          \<and> \<not> isLoading s'"
  using assms by (simp add: loadLesson_resume_def settle_def)

theorem loadLesson_failure_witness:
  "LoadFetch ''L1'' \<in> set (inflight loading_page)
   \<and> (\<exists>s'. step (LoadResponse ''L1'' (Rejected ''Network Error'')) loading_page = Some s'
          \<and> navigated s' = [''/'']
          \<and> requests s' = [GetLesson ''L1'']
          \<and> inflight s' = []
          \<and> intervals s' = []
          \<and> lesson s' = None)"
proof -
  have pend: "LoadFetch ''L1'' \<in> set (inflight loading_page)"
    by (simp add: loading_page_def)
  have fields: "navigated loading_page = []" "requests loading_page = [GetLesson ''L1'']"
    "inflight loading_page = [LoadFetch ''L1'']" "intervals loading_page = []"
    "lesson loading_page = None"
    by (simp_all add: loading_page_def initial_page_def)
  from loadLesson_failure [OF pend, of "''Network Error''"] fields pend
  show ?thesis by auto
qed

section \<open>Retry\<close>

text \<open>
  C7. Claimed: while the held status is FAILED no timer is scheduled, and a retry is
  reprocess, then load followed by evaluateAndSchedule. The first load returns FAILED and
  schedules no timer; the user retries, both requests resolve and the reload returns
  FAILED again. \<^verbatim>\<open>handleRetry\<close> calls \<^verbatim>\<open>startPolling()\<close> after \<^verbatim>\<open>loadLesson()\<close>
  whatever was loaded, so the page now holds a FAILED lesson, offers Retry and has
  timer 1 active, where the load with its scheduling step alone leaves no timer.
\<close>

theorem retry_polls_failed_lesson:
  "run [Effect (Some ''L1''), LoadResponse ''L1'' (Resolved (example_lesson ''L1'' ''FAILED'' [])),
        RetryClick ''L1'', ProcessResponse ''L1'' (Resolved ()),
        RetryLoadResponse ''L1'' (Resolved (example_lesson ''L1'' ''FAILED'' []))] initial_page
     = Some retried_page
   \<and> map_option status (lesson retried_page) = Some ''FAILED''
   \<and> retry_offered retried_page
   \<and> intervals retried_page = [\<lparr>handle = 1, delay = 2000, target = ''L1''\<rparr>]
   \<and> intervals (evaluateAndSchedule ''L1'' (example_lesson ''L1'' ''FAILED'' [])
         (loadLesson_resume ''L1'' (Resolved (example_lesson ''L1'' ''FAILED'' [])) failed_page)) = []"
  by (simp add: page_defs retried_page_def failed_page_def)

text \<open>
  C7, as the code has it. A first load that returns FAILED schedules no timer and offers
  the Retry button. From any reachable state that offers it, \<^verbatim>\<open>handleRetry\<close> sends
  \<^verbatim>\<open>lessonsApi.process\<close> first. When that rejects it logs \<^verbatim>\<open>Retry failed\<close> and sends
  nothing more, the lesson and the timers staying as they were. When it resolves,
  \<^verbatim>\<open>lessonsApi.get\<close> is sent second, \<^verbatim>\<open>loadLesson\<close> handles its outcome, and
  \<^verbatim>\<open>startPolling\<close> follows unconditionally: whatever the fresh status is, and also
  when the reload rejects, exactly one timer polls the lesson every 2000 ms afterwards.
  In particular polling resumes when the fresh status is UPLOADED.
\<close>

theorem retry_restarts_polling:
  assumes "run es initial_page = Some s" and "retry_offered s"
  shows "(\<exists>s'. run [RetryClick lid, ProcessResponse lid (Resolved ()),
                    RetryLoadResponse lid (Resolved fresh)] s = Some s'
            \<and> requests s' = requests s @ [ProcessLesson lid, GetLesson lid]
            \<and> lesson s' = Some fresh
            \<and> intervals s' =
                 [\<lparr>handle = nextHandle s + (if status fresh \<in> set PROCESSING_STATUSES then 1 else 0),
                   delay = 2000, target = lid\<rparr>]
            \<and> pollRef s' =
                 Some (nextHandle s + (if status fresh \<in> set PROCESSING_STATUSES then 1 else 0))
            \<and> \<not> isRetrying s')
     \<and> (\<exists>s'. run [RetryClick lid, ProcessResponse lid (Resolved ()),
                    RetryLoadResponse lid (Rejected err)] s = Some s'
            \<and> requests s' = requests s @ [ProcessLesson lid, GetLesson lid]
            \<and> lesson s' = lesson s
            \<and> navigated s' = navigated s @ [''/'']
            \<and> intervals s' = [\<lparr>handle = nextHandle s, delay = 2000, target = lid\<rparr>]
            \<and> \<not> isRetrying s')
     \<and> (\<exists>s'. run [RetryClick lid, ProcessResponse lid (Rejected err)] s = Some s'
            \<and> requests s' = requests s @ [ProcessLesson lid]
            \<and> lesson s' = lesson s
            \<and> intervals s' = intervals s
            \<and> pollRef s' = pollRef s
            \<and> console s' = console s @ [''Retry failed'']
            \<and> \<not> isRetrying s')
     \<and> (status failed = ''FAILED'' \<longrightarrow> lid \<noteq> [] \<longrightarrow>
          (\<exists>s0. run [Effect (Some lid), LoadResponse lid (Resolved failed)] initial_page = Some s0
             \<and> lesson s0 = Some failed \<and> intervals s0 = [] \<and> pollRef s0 = None
             \<and> retry_offered s0))"
proof -
  have inv: "timer_inv s" using assms(1) by (rule reachable_inv)
  let ?a = "settle (RetryLoad lid) (handleRetry_processed lid (Resolved ())
              (settle (RetryProcess lid) (handleRetry_begin lid s)))"
  have inv_a: "timer_inv ?a"
    using inv
    by (intro timer_inv_settle timer_inv_handleRetry_processed timer_inv_handleRetry_begin)
  have a: "requests ?a = requests s @ [ProcessLesson lid, GetLesson lid]"
    "nextHandle ?a = nextHandle s" "lesson ?a = lesson s" "navigated ?a = navigated s"
    by (simp_all add: settle_def handleRetry_processed_def handleRetry_begin_def await_def)
  have loaded: "\<exists>s'. run [RetryClick lid, ProcessResponse lid (Resolved ()),
                    RetryLoadResponse lid r] s = Some s'
            \<and> s' = handleRetry_loaded lid r ?a" for r
    using assms(2)
    by (simp add: handleRetry_begin_def handleRetry_processed_def await_def settle_def)
  have started: "intervals (handleRetry_loaded lid r ?a)
        = [\<lparr>handle = nextHandle (loadLesson_resume lid r ?a), delay = 2000, target = lid\<rparr>]"
      "pollRef (handleRetry_loaded lid r ?a) = Some (nextHandle (loadLesson_resume lid r ?a))"
      "requests (handleRetry_loaded lid r ?a) = requests (loadLesson_resume lid r ?a)"
      "lesson (handleRetry_loaded lid r ?a) = lesson (loadLesson_resume lid r ?a)"
      "navigated (handleRetry_loaded lid r ?a) = navigated (loadLesson_resume lid r ?a)"
      "\<not> isRetrying (handleRetry_loaded lid r ?a)" for r
    using startPolling_intervals [OF timer_inv_loadLesson_resume [OF inv_a], of lid lid r]
    by (simp_all add: handleRetry_loaded_def startPolling_pollRef POLL_INTERVAL_def)
  have res: "requests (loadLesson_resume lid (Resolved fresh) ?a) = requests ?a"
    "lesson (loadLesson_resume lid (Resolved fresh) ?a) = Some fresh"
    "nextHandle (loadLesson_resume lid (Resolved fresh) ?a)
       = nextHandle s + (if status fresh \<in> set PROCESSING_STATUSES then 1 else 0)"
    by (simp_all add: loadLesson_resume_def evaluateAndSchedule_def startPolling_nextHandle a)
  have rej: "requests (loadLesson_resume lid (Rejected err) ?a) = requests ?a"
    "lesson (loadLesson_resume lid (Rejected err) ?a) = lesson ?a"
    "navigated (loadLesson_resume lid (Rejected err) ?a) = navigated ?a @ [''/'']"
    "nextHandle (loadLesson_resume lid (Rejected err) ?a) = nextHandle ?a"
    by (simp_all add: loadLesson_resume_def)
  have first: "\<exists>s'. run [RetryClick lid, ProcessResponse lid (Resolved ()),
                    RetryLoadResponse lid (Resolved fresh)] s = Some s'
            \<and> requests s' = requests s @ [ProcessLesson lid, GetLesson lid]
            \<and> lesson s' = Some fresh
            \<and> intervals s' =
                 [\<lparr>handle = nextHandle s + (if status fresh \<in> set PROCESSING_STATUSES then 1 else 0),
                   delay = 2000, target = lid\<rparr>]
            \<and> pollRef s' =
                 Some (nextHandle s + (if status fresh \<in> set PROCESSING_STATUSES then 1 else 0))
            \<and> \<not> isRetrying s'"
    using loaded [of "Resolved fresh"] started [of "Resolved fresh"] res a by auto
  have second: "\<exists>s'. run [RetryClick lid, ProcessResponse lid (Resolved ()),
                    RetryLoadResponse lid (Rejected err)] s = Some s'
            \<and> requests s' = requests s @ [ProcessLesson lid, GetLesson lid]
            \<and> lesson s' = lesson s
            \<and> navigated s' = navigated s @ [''/'']
            \<and> intervals s' = [\<lparr>handle = nextHandle s, delay = 2000, target = lid\<rparr>]
            \<and> \<not> isRetrying s'"
    using loaded [of "Rejected err"] started [of "Rejected err"] rej a by auto
  have third: "\<exists>s'. run [RetryClick lid, ProcessResponse lid (Rejected err)] s = Some s'
            \<and> requests s' = requests s @ [ProcessLesson lid]
            \<and> lesson s' = lesson s
            \<and> intervals s' = intervals s
            \<and> pollRef s' = pollRef s
            \<and> console s' = console s @ [''Retry failed'']
            \<and> \<not> isRetrying s'"
    using assms(2)
    by (simp add: handleRetry_begin_def handleRetry_processed_def await_def settle_def)
  have fourth: "\<exists>s0. run [Effect (Some lid), LoadResponse lid (Resolved failed)] initial_page = Some s0
             \<and> lesson s0 = Some failed \<and> intervals s0 = [] \<and> pollRef s0 = None
             \<and> retry_offered s0"
    if "status failed = ''FAILED''" "lid \<noteq> []"
    using that
    by (simp add: effect_body_def loadLesson_begin_def await_def settle_def loadLesson_resume_def
          evaluateAndSchedule_def PROCESSING_STATUSES_def retry_offered_def initial_page_def)
  show ?thesis using first second third fourth by blast
qed

theorem retry_restarts_polling_witness:
  "run [Effect (Some ''L1''), LoadResponse ''L1'' (Resolved (example_lesson ''L1'' ''FAILED'' []))]
     initial_page = Some failed_page
   \<and> retry_offered failed_page
   \<and> intervals failed_page = []
   \<and> (\<exists>s'. run [RetryClick ''L1'', ProcessResponse ''L1'' (Resolved ()),
                  RetryLoadResponse ''L1'' (Resolved (example_lesson ''L1'' ''UPLOADED'' []))]
              failed_page = Some s'
          \<and> requests s' = [GetLesson ''L1'', ProcessLesson ''L1'', GetLesson ''L1'']
          \<and> lesson s' = Some (example_lesson ''L1'' ''UPLOADED'' [])
          \<and> intervals s' = [\<lparr>handle = 2, delay = 2000, target = ''L1''\<rparr>])
   \<and> (\<exists>s'. run [RetryClick ''L1'', ProcessResponse ''L1'' (Resolved ()),
                  RetryLoadResponse ''L1'' (Resolved (example_lesson ''L1'' ''FAILED'' []))]
              failed_page = Some s'
          \<and> lesson s' = Some (example_lesson ''L1'' ''FAILED'' [])
          \<and> intervals s' = [\<lparr>handle = 1, delay = 2000, target = ''L1''\<rparr>])"
proof -
  have offered: "retry_offered failed_page"
    by (simp add: retry_offered_def failed_page_def example_lesson_def)
  have fields: "intervals failed_page = []" "requests failed_page = [GetLesson ''L1'']"
    "nextHandle failed_page = 1"
    by (simp_all add: failed_page_def)
  have up: "status (example_lesson ''L1'' ''UPLOADED'' []) \<in> set PROCESSING_STATUSES"
    and fl: "status (example_lesson ''L1'' ''FAILED'' []) \<notin> set PROCESSING_STATUSES"
    by (simp_all add: example_lesson_def PROCESSING_STATUSES_def)
  from retry_restarts_polling [OF failed_page_run offered,
      where lid = "''L1''" and fresh = "example_lesson ''L1'' ''UPLOADED'' []"]
  obtain s1 where s1: "run [RetryClick ''L1'', ProcessResponse ''L1'' (Resolved ()),
                  RetryLoadResponse ''L1'' (Resolved (example_lesson ''L1'' ''UPLOADED'' []))]
              failed_page = Some s1"
    "requests s1 = requests failed_page @ [ProcessLesson ''L1'', GetLesson ''L1'']"
    "lesson s1 = Some (example_lesson ''L1'' ''UPLOADED'' [])"
    "intervals s1 = [\<lparr>handle = nextHandle failed_page
        + (if status (example_lesson ''L1'' ''UPLOADED'' []) \<in> set PROCESSING_STATUSES then 1 else 0),
        delay = 2000, target = ''L1''\<rparr>]"
    by blast
  from retry_restarts_polling [OF failed_page_run offered,
      where lid = "''L1''" and fresh = "example_lesson ''L1'' ''FAILED'' []"]
  obtain s2 where s2: "run [RetryClick ''L1'', ProcessResponse ''L1'' (Resolved ()),
                  RetryLoadResponse ''L1'' (Resolved (example_lesson ''L1'' ''FAILED'' []))]
              failed_page = Some s2"
    "lesson s2 = Some (example_lesson ''L1'' ''FAILED'' [])"
    "intervals s2 = [\<lparr>handle = nextHandle failed_page
        + (if status (example_lesson ''L1'' ''FAILED'' []) \<in> set PROCESSING_STATUSES then 1 else 0),
        delay = 2000, target = ''L1''\<rparr>]"
    by blast
  have i1: "intervals s1 = [\<lparr>handle = 2, delay = 2000, target = ''L1''\<rparr>]"
    using s1(4) up fields(3) by simp
  have i2: "intervals s2 = [\<lparr>handle = 1, delay = 2000, target = ''L1''\<rparr>]"
    using s2(3) fl fields(3) by simp
  have r1: "requests s1 = [GetLesson ''L1'', ProcessLesson ''L1'', GetLesson ''L1'']"
    using s1(2) fields(2) by simp
  show ?thesis
    using failed_page_run offered fields(1) s1(1,3) r1 i1 s2(1,2) i2 by blast
qed

section \<open>Updating an output\<close>

lemma completed_page_run:
  "run [Effect (Some ''L1''), LoadResponse ''L1'' (Resolved completed_lesson)] initial_page
     = Some completed_page"
  by (simp add: page_defs completed_page_def failed_page_def completed_lesson_def)

lemma handleOutputUpdate_no_lesson: "handleOutputUpdate None u s = s"
  by (simp add: handleOutputUpdate_def)





end
